theory Spec2Isabelle
  imports Main "HOL-Library.Word"
begin

unbundle bit_operations_syntax

section \<open>Machine types of CIA.h\<close>

text \<open>
  The header uses \<open>uint8_t\<close>, \<open>uint16_t\<close> and \<open>uint64_t\<close> fields. C++ evaluates every
  operator on the narrow types in \<open>int\<close> (32 bits) after integral promotion and
  truncates on assignment; the promotion and the truncation are written out below.
\<close>

type_synonym uint8_t = "8 word"
type_synonym uint16_t = "16 word"
type_synonym uint64_t = "64 word"
type_synonym cint = "32 word"

text \<open>Integral promotion of an unsigned narrow value to \<open>int\<close>: zero extension.\<close>

definition promote8 :: "uint8_t \<Rightarrow> cint" where
  "promote8 x = ucast x"

definition promote16 :: "uint16_t \<Rightarrow> cint" where
  "promote16 x = ucast x"

text \<open>Conversion of an \<open>int\<close> to \<open>uint8_t\<close> or \<open>uint16_t\<close>: reduction modulo the width.\<close>

definition to_uint8 :: "cint \<Rightarrow> uint8_t" where
  "to_uint8 x = ucast x"

definition to_uint16 :: "cint \<Rightarrow> uint16_t" where
  "to_uint16 x = ucast x"

text \<open>Conversion of a (signed) \<open>int\<close> to \<open>uint64_t\<close>: sign extension.\<close>

definition int_to_uint64 :: "cint \<Rightarrow> uint64_t" where
  "int_to_uint64 x = scast x"

text \<open>Conversion of an \<open>int\<close> to \<open>bool\<close>: non-zero is true.\<close>

definition to_bool :: "cint \<Rightarrow> bool" where
  "to_bool x = (x \<noteq> 0)"

text \<open>Conversion of a \<open>bool\<close> to an integer: 1 or 0.\<close>

definition bool_to_int :: "bool \<Rightarrow> cint" where
  "bool_to_int b = (if b then 1 else 0)"

section \<open>Address windows\<close>

definition CIA_START_ADDR :: uint16_t where "CIA_START_ADDR = 0xDC00"
definition CIA_END_ADDR :: uint16_t where "CIA_END_ADDR = 0xDDFF"
definition CIA1_START_ADDR :: uint16_t where "CIA1_START_ADDR = 0xDC00"
definition CIA1_END_ADDR :: uint16_t where "CIA1_END_ADDR = 0xDCFF"
definition CIA2_START_ADDR :: uint16_t where "CIA2_START_ADDR = 0xDD00"
definition CIA2_END_ADDR :: uint16_t where "CIA2_END_ADDR = 0xDDFF"

text \<open>The comparisons are made in \<open>int\<close>, on the promoted (non-negative) values.\<close>

definition isCiaAddr :: "uint16_t \<Rightarrow> bool" where
  "isCiaAddr addr = (uint CIA_START_ADDR \<le> uint addr \<and> uint addr \<le> uint CIA_END_ADDR)"

definition isCia1Addr :: "uint16_t \<Rightarrow> bool" where
  "isCia1Addr addr = (uint CIA1_START_ADDR \<le> uint addr \<and> uint addr \<le> uint CIA1_END_ADDR)"

definition isCia2Addr :: "uint16_t \<Rightarrow> bool" where
  "isCia2Addr addr = (uint CIA2_START_ADDR \<le> uint addr \<and> uint addr \<le> uint CIA2_END_ADDR)"


section \<open>Delay-pipeline event constants\<close>

text \<open>
  The first thirty constants are plain \<open>int\<close> literals. The serial constants are
  unsuffixed hexadecimal literals too large for \<open>int\<close> and \<open>unsigned int\<close>, so their type
  is the 64-bit signed \<open>long\<close>; the Hoxs constants carry the suffix \<open>ULL\<close>. All 64-bit
  values here are non-negative, so one 64-bit word type serves for both.
\<close>

type_synonym clong = "64 word"

definition CountA0 :: cint where "CountA0 = 0x00000001"
definition CountA1 :: cint where "CountA1 = 0x00000002"
definition CountA2 :: cint where "CountA2 = 0x00000004"
definition CountA3 :: cint where "CountA3 = 0x00000008"
definition CountB0 :: cint where "CountB0 = 0x00000010"
definition CountB1 :: cint where "CountB1 = 0x00000020"
definition CountB2 :: cint where "CountB2 = 0x00000040"
definition CountB3 :: cint where "CountB3 = 0x00000080"
definition LoadA0 :: cint where "LoadA0 = 0x00000100"
definition LoadA1 :: cint where "LoadA1 = 0x00000200"
definition LoadA2 :: cint where "LoadA2 = 0x00000400"
definition LoadB0 :: cint where "LoadB0 = 0x00000800"
definition LoadB1 :: cint where "LoadB1 = 0x00001000"
definition LoadB2 :: cint where "LoadB2 = 0x00002000"
definition PB6Low0 :: cint where "PB6Low0 = 0x00004000"
definition PB6Low1 :: cint where "PB6Low1 = 0x00008000"
definition PB7Low0 :: cint where "PB7Low0 = 0x00010000"
definition PB7Low1 :: cint where "PB7Low1 = 0x00020000"
definition Interrupt0 :: cint where "Interrupt0 = 0x00040000"
definition Interrupt1 :: cint where "Interrupt1 = 0x00080000"
definition OneShotA0 :: cint where "OneShotA0 = 0x00100000"
definition OneShotB0 :: cint where "OneShotB0 = 0x00200000"
definition ReadIcr0 :: cint where "ReadIcr0 = 0x00400000"
definition ReadIcr1 :: cint where "ReadIcr1 = 0x00800000"
definition ClearIcr0 :: cint where "ClearIcr0 = 0x01000000"
definition ClearIcr1 :: cint where "ClearIcr1 = 0x02000000"
definition ClearIcr2 :: cint where "ClearIcr2 = 0x04000000"
definition SetIcr0 :: cint where "SetIcr0 = 0x08000000"
definition SetIcr1 :: cint where "SetIcr1 = 0x10000000"
definition TODInt0 :: cint where "TODInt0 = 0x20000000"

definition Cnt0 :: clong where "Cnt0 = 0x0000100000000000"
definition Cnt1 :: clong where "Cnt1 = 0x0000200000000000"
definition Cnt2 :: clong where "Cnt2 = 0x0000400000000000"
definition SerInt0 :: clong where "SerInt0 = 0x0000800000000000"
definition SerInt1 :: clong where "SerInt1 = 0x0001000000000000"
definition SerInt2 :: clong where "SerInt2 = 0x0002000000000000"
definition SerLoad0 :: clong where "SerLoad0 = 0x0004000000000000"
definition SerLoad1 :: clong where "SerLoad1 = 0x0008000000000000"
definition SerClk0 :: clong where "SerClk0 = 0x0010000000000000"
definition SerClk1 :: clong where "SerClk1 = 0x0020000000000000"
definition SerClk2 :: clong where "SerClk2 = 0x0040000000000000"
definition SerClk3 :: clong where "SerClk3 = 0x0080000000000000"

definition SetCntFlip0 :: uint64_t where "SetCntFlip0 = 0x0000000400000000"
definition SetCntFlip1 :: uint64_t where "SetCntFlip1 = 0x0000000800000000"
definition SetCntFlip2 :: uint64_t where "SetCntFlip2 = 0x0000001000000000"
definition SetCntFlip3 :: uint64_t where "SetCntFlip3 = 0x0000002000000000"
definition SetCnt0 :: uint64_t where "SetCnt0 = 0x0000004000000000"
definition SetCnt1 :: uint64_t where "SetCnt1 = 0x0000008000000000"
definition SetCnt2 :: uint64_t where "SetCnt2 = 0x0000010000000000"
definition SetCnt3 :: uint64_t where "SetCnt3 = 0x0000020000000000"

text \<open>
  \<open>DelayMask\<close>: the operator \<open>|\<close> associates to the left, so the thirteen \<open>int\<close> operands
  are combined in \<open>int\<close>, the result is converted to \<open>long\<close> (sign extension) for the four
  serial operands, and that to \<open>unsigned long long\<close> for the two Hoxs operands; the
  complement is taken at 64 bits.
\<close>

definition DelayMask :: uint64_t where
  "DelayMask = NOT (int_to_uint64 (CountA0 OR CountB0 OR LoadA0 OR LoadB0 OR PB6Low0 OR PB7Low0
       OR Interrupt0 OR OneShotA0 OR OneShotB0 OR ReadIcr0 OR ClearIcr0 OR SetIcr0 OR TODInt0)
     OR Cnt0 OR SerInt0 OR SerLoad0 OR SerClk0 OR SetCntFlip0 OR SetCnt0)"

text \<open>All event constants, as 64-bit values of the delay word, in the order of the header.\<close>

definition delay_events :: "uint64_t list" where
  "delay_events = map int_to_uint64
     [CountA0, CountA1, CountA2, CountA3, CountB0, CountB1, CountB2, CountB3,
      LoadA0, LoadA1, LoadA2, LoadB0, LoadB1, LoadB2, PB6Low0, PB6Low1, PB7Low0, PB7Low1,
      Interrupt0, Interrupt1, OneShotA0, OneShotB0, ReadIcr0, ReadIcr1,
      ClearIcr0, ClearIcr1, ClearIcr2, SetIcr0, SetIcr1, TODInt0]
   @ [Cnt0, Cnt1, Cnt2, SerInt0, SerInt1, SerInt2, SerLoad0, SerLoad1,
      SerClk0, SerClk1, SerClk2, SerClk3]
   @ [SetCntFlip0, SetCntFlip1, SetCntFlip2, SetCntFlip3, SetCnt0, SetCnt1, SetCnt2, SetCnt3]"

text \<open>The nineteen stage-0 events that occur in \<open>DelayMask\<close>.\<close>

definition stage0_events :: "uint64_t list" where
  "stage0_events = map int_to_uint64
     [CountA0, CountB0, LoadA0, LoadB0, PB6Low0, PB7Low0, Interrupt0, OneShotA0, OneShotB0,
      ReadIcr0, ClearIcr0, SetIcr0, TODInt0]
   @ [Cnt0, SerInt0, SerLoad0, SerClk0]
   @ [SetCntFlip0, SetCnt0]"

section \<open>State of a CIA chip\<close>

text \<open>
  The fields of class \<open>CIA\<close> in declaration order. The state inherited from
  \<open>VirtualComponent\<close> and the \<open>TOD\<close> clock are declared in other headers and are carried as
  opaque values; the fields added by \<open>CIA1\<close> and \<open>CIA2\<close> live in the record extension.
  The output pin \<open>INT\<close> is named \<open>INT_pin\<close>.
\<close>

record ('vc, 'tod) CIA =
  component :: 'vc
  SDR :: uint8_t
  serClk :: bool
  serCounter :: uint8_t
  serial_int_count :: uint8_t
  f_cnt_out :: bool
  todAlarm :: bool
  counterA :: uint16_t
  latchA :: uint16_t
  counterB :: uint16_t
  latchB :: uint16_t
  tod :: 'tod
  delay :: uint64_t
  feed :: uint64_t
  CRA :: uint8_t
  CRB :: uint8_t
  ICR :: uint8_t
  IMR :: uint8_t
  PB67TimerMode :: uint8_t
  PB67TimerOut :: uint8_t
  PB67Toggle :: uint8_t
  PALatch :: uint8_t
  PBLatch :: uint8_t
  DDRA :: uint8_t
  DDRB :: uint8_t
  PA :: uint8_t
  PB :: uint8_t
  CNT :: bool
  INT_pin :: bool


section \<open>Interrupt control\<close>

text \<open>
  Each setter is \<open>if (b) R |= m; else R &= c;\<close> on a \<open>uint8_t\<close> register \<open>R\<close>: the
  operation is done in \<open>int\<close> and the result truncated. Each getter converts the \<open>int\<close>
  value \<open>R & m\<close> to \<open>bool\<close>. Each toggle calls the setter with the negated getter.
\<close>

definition isInterruptEnabledA :: "('vc, 'tod, 'z) CIA_scheme \<Rightarrow> bool" where
  "isInterruptEnabledA s = to_bool (promote8 (IMR s) AND 0x01)"

definition setInterruptEnabledA :: "bool \<Rightarrow> ('vc, 'tod, 'z) CIA_scheme \<Rightarrow> ('vc, 'tod, 'z) CIA_scheme" where
  "setInterruptEnabledA b s = (if b then s\<lparr>IMR := to_uint8 (promote8 (IMR s) OR 0x01)\<rparr>
     else s\<lparr>IMR := to_uint8 (promote8 (IMR s) AND (0xff - 0x01))\<rparr>)"

definition toggleInterruptEnableFlagA :: "('vc, 'tod, 'z) CIA_scheme \<Rightarrow> ('vc, 'tod, 'z) CIA_scheme" where
  "toggleInterruptEnableFlagA s = setInterruptEnabledA (\<not> isInterruptEnabledA s) s"

definition isSignalPendingA :: "('vc, 'tod, 'z) CIA_scheme \<Rightarrow> bool" where
  "isSignalPendingA s = to_bool (promote8 (ICR s) AND 0x01)"

definition setSignalPendingA :: "bool \<Rightarrow> ('vc, 'tod, 'z) CIA_scheme \<Rightarrow> ('vc, 'tod, 'z) CIA_scheme" where
  "setSignalPendingA b s = (if b then s\<lparr>ICR := to_uint8 (promote8 (ICR s) OR 0x01)\<rparr>
     else s\<lparr>ICR := to_uint8 (promote8 (ICR s) AND (0xff - 0x01))\<rparr>)"

definition togglePendingSignalFlagA :: "('vc, 'tod, 'z) CIA_scheme \<Rightarrow> ('vc, 'tod, 'z) CIA_scheme" where
  "togglePendingSignalFlagA s = setSignalPendingA (\<not> isSignalPendingA s) s"

definition isInterruptEnabledB :: "('vc, 'tod, 'z) CIA_scheme \<Rightarrow> bool" where
  "isInterruptEnabledB s = to_bool (promote8 (IMR s) AND 0x02)"

definition setInterruptEnabledB :: "bool \<Rightarrow> ('vc, 'tod, 'z) CIA_scheme \<Rightarrow> ('vc, 'tod, 'z) CIA_scheme" where
  "setInterruptEnabledB b s = (if b then s\<lparr>IMR := to_uint8 (promote8 (IMR s) OR 0x02)\<rparr>
     else s\<lparr>IMR := to_uint8 (promote8 (IMR s) AND (0xff - 0x02))\<rparr>)"

definition toggleInterruptEnableFlagB :: "('vc, 'tod, 'z) CIA_scheme \<Rightarrow> ('vc, 'tod, 'z) CIA_scheme" where
  "toggleInterruptEnableFlagB s = setInterruptEnabledB (\<not> isInterruptEnabledB s) s"

definition isSignalPendingB :: "('vc, 'tod, 'z) CIA_scheme \<Rightarrow> bool" where
  "isSignalPendingB s = to_bool (promote8 (ICR s) AND 0x02)"

definition setSignalPendingB :: "bool \<Rightarrow> ('vc, 'tod, 'z) CIA_scheme \<Rightarrow> ('vc, 'tod, 'z) CIA_scheme" where
  "setSignalPendingB b s = (if b then s\<lparr>ICR := to_uint8 (promote8 (ICR s) OR 0x02)\<rparr>
     else s\<lparr>ICR := to_uint8 (promote8 (ICR s) AND (0xff - 0x02))\<rparr>)"

definition togglePendingSignalFlagB :: "('vc, 'tod, 'z) CIA_scheme \<Rightarrow> ('vc, 'tod, 'z) CIA_scheme" where
  "togglePendingSignalFlagB s = setSignalPendingB (\<not> isSignalPendingB s) s"

text \<open>The time-of-day and FLAG accessors of the header read and write \<open>ICR\<close>.\<close>

definition isInterruptEnabledTOD :: "('vc, 'tod, 'z) CIA_scheme \<Rightarrow> bool" where
  "isInterruptEnabledTOD s = to_bool (promote8 (ICR s) AND 0x04)"

definition setInterruptEnabledTOD :: "bool \<Rightarrow> ('vc, 'tod, 'z) CIA_scheme \<Rightarrow> ('vc, 'tod, 'z) CIA_scheme" where
  "setInterruptEnabledTOD b s = (if b then s\<lparr>ICR := to_uint8 (promote8 (ICR s) OR 0x04)\<rparr>
     else s\<lparr>ICR := to_uint8 (promote8 (ICR s) AND (0xff - 0x04))\<rparr>)"

definition isInterruptEnabledFlg :: "('vc, 'tod, 'z) CIA_scheme \<Rightarrow> bool" where
  "isInterruptEnabledFlg s = to_bool (promote8 (ICR s) AND 0x10)"

definition setInterruptEnabledFlg :: "bool \<Rightarrow> ('vc, 'tod, 'z) CIA_scheme \<Rightarrow> ('vc, 'tod, 'z) CIA_scheme" where
  "setInterruptEnabledFlg b s = (if b then s\<lparr>ICR := to_uint8 (promote8 (ICR s) OR 0x10)\<rparr>
     else s\<lparr>ICR := to_uint8 (promote8 (ICR s) AND (0xff - 0x10))\<rparr>)"

section \<open>Timer A\<close>

definition getLatchA :: "('vc, 'tod, 'z) CIA_scheme \<Rightarrow> uint16_t" where
  "getLatchA s = latchA s"

definition setLatchA :: "uint16_t \<Rightarrow> ('vc, 'tod, 'z) CIA_scheme \<Rightarrow> ('vc, 'tod, 'z) CIA_scheme" where
  "setLatchA v s = s\<lparr>latchA := v\<rparr>"

definition getLatchALo :: "('vc, 'tod, 'z) CIA_scheme \<Rightarrow> uint8_t" where
  "getLatchALo s = to_uint8 (promote16 (latchA s) AND 0xFF)"

definition setLatchALo :: "uint8_t \<Rightarrow> ('vc, 'tod, 'z) CIA_scheme \<Rightarrow> ('vc, 'tod, 'z) CIA_scheme" where
  "setLatchALo v s = s\<lparr>latchA := to_uint16 ((promote16 (latchA s) AND 0xFF00) OR promote8 v)\<rparr>"

definition getLatchAHi :: "('vc, 'tod, 'z) CIA_scheme \<Rightarrow> uint8_t" where
  "getLatchAHi s = to_uint8 (drop_bit 8 (promote16 (latchA s)))"

definition setLatchAHi :: "uint8_t \<Rightarrow> ('vc, 'tod, 'z) CIA_scheme \<Rightarrow> ('vc, 'tod, 'z) CIA_scheme" where
  "setLatchAHi v s = s\<lparr>latchA := to_uint16 (push_bit 8 (promote8 v) OR (promote16 (latchA s) AND 0xFF))\<rparr>"

definition getCounterA :: "('vc, 'tod, 'z) CIA_scheme \<Rightarrow> uint16_t" where
  "getCounterA s = counterA s"

definition setCounterA :: "uint16_t \<Rightarrow> ('vc, 'tod, 'z) CIA_scheme \<Rightarrow> ('vc, 'tod, 'z) CIA_scheme" where
  "setCounterA v s = s\<lparr>counterA := v\<rparr>"

definition getCounterALo :: "('vc, 'tod, 'z) CIA_scheme \<Rightarrow> uint8_t" where
  "getCounterALo s = to_uint8 (promote16 (counterA s) AND 0xFF)"

definition setCounterALo :: "uint8_t \<Rightarrow> ('vc, 'tod, 'z) CIA_scheme \<Rightarrow> ('vc, 'tod, 'z) CIA_scheme" where
  "setCounterALo v s = s\<lparr>counterA := to_uint16 ((promote16 (counterA s) AND 0xFF00) OR promote8 v)\<rparr>"

definition getCounterAHi :: "('vc, 'tod, 'z) CIA_scheme \<Rightarrow> uint8_t" where
  "getCounterAHi s = to_uint8 (drop_bit 8 (promote16 (counterA s)))"

definition setCounterAHi :: "uint8_t \<Rightarrow> ('vc, 'tod, 'z) CIA_scheme \<Rightarrow> ('vc, 'tod, 'z) CIA_scheme" where
  "setCounterAHi v s = s\<lparr>counterA := to_uint16 (push_bit 8 (promote8 v) OR (promote16 (counterA s) AND 0xFF))\<rparr>"

text \<open>
  \<open>counterA = latchA; delay &= ~CountA2;\<close> The complement is taken in \<open>int\<close> and the
  (negative) result converted to \<open>uint64_t\<close> for the conjunction.
\<close>

definition reloadTimerA :: "('vc, 'tod, 'z) CIA_scheme \<Rightarrow> ('vc, 'tod, 'z) CIA_scheme" where
  "reloadTimerA s = (let s1 = s\<lparr>counterA := latchA s\<rparr>
     in s1\<lparr>delay := delay s1 AND int_to_uint64 (NOT CountA2)\<rparr>)"

definition isStartedA :: "('vc, 'tod, 'z) CIA_scheme \<Rightarrow> bool" where
  "isStartedA s = to_bool (promote8 (CRA s) AND 0x01)"

definition setStartedA :: "bool \<Rightarrow> ('vc, 'tod, 'z) CIA_scheme \<Rightarrow> ('vc, 'tod, 'z) CIA_scheme" where
  "setStartedA b s = (if b then s\<lparr>CRA := to_uint8 (promote8 (CRA s) OR 0x01)\<rparr>
     else s\<lparr>CRA := to_uint8 (promote8 (CRA s) AND 0xFE)\<rparr>)"

definition toggleStartFlagA :: "('vc, 'tod, 'z) CIA_scheme \<Rightarrow> ('vc, 'tod, 'z) CIA_scheme" where
  "toggleStartFlagA s = setStartedA (\<not> isStartedA s) s"

definition forceLoadStrobeA :: "('vc, 'tod, 'z) CIA_scheme \<Rightarrow> bool" where
  "forceLoadStrobeA s = to_bool (promote8 (CRA s) AND 0x10)"

definition willIndicateUnderflowA :: "('vc, 'tod, 'z) CIA_scheme \<Rightarrow> bool" where
  "willIndicateUnderflowA s = to_bool (promote8 (CRA s) AND 0x02)"

definition setIndicateUnderflowA :: "bool \<Rightarrow> ('vc, 'tod, 'z) CIA_scheme \<Rightarrow> ('vc, 'tod, 'z) CIA_scheme" where
  "setIndicateUnderflowA b s = (if b then s\<lparr>CRA := to_uint8 (promote8 (CRA s) OR 0x02)\<rparr>
     else s\<lparr>CRA := to_uint8 (promote8 (CRA s) AND (0xFF - 0x02))\<rparr>)"

definition toggleUnderflowFlagA :: "('vc, 'tod, 'z) CIA_scheme \<Rightarrow> ('vc, 'tod, 'z) CIA_scheme" where
  "toggleUnderflowFlagA s = setIndicateUnderflowA (\<not> willIndicateUnderflowA s) s"

definition willIndicateUnderflowAsPulseA :: "('vc, 'tod, 'z) CIA_scheme \<Rightarrow> bool" where
  "willIndicateUnderflowAsPulseA s = (\<not> to_bool (promote8 (CRA s) AND 0x04))"

definition isOneShotA :: "('vc, 'tod, 'z) CIA_scheme \<Rightarrow> bool" where
  "isOneShotA s = to_bool (promote8 (CRA s) AND 0x08)"

definition setOneShotA :: "bool \<Rightarrow> ('vc, 'tod, 'z) CIA_scheme \<Rightarrow> ('vc, 'tod, 'z) CIA_scheme" where
  "setOneShotA b s = (if b then s\<lparr>CRA := to_uint8 (promote8 (CRA s) OR 0x08)\<rparr>
     else s\<lparr>CRA := to_uint8 (promote8 (CRA s) AND (0xff - 0x08))\<rparr>)"

definition toggleOneShotFlagA :: "('vc, 'tod, 'z) CIA_scheme \<Rightarrow> ('vc, 'tod, 'z) CIA_scheme" where
  "toggleOneShotFlagA s = setOneShotA (\<not> isOneShotA s) s"

definition isCountingClockTicksA :: "('vc, 'tod, 'z) CIA_scheme \<Rightarrow> bool" where
  "isCountingClockTicksA s = ((promote8 (CRA s) AND 0x20) = 0x00)"

text \<open>The return type is \<open>bool\<close>: the \<open>uint8_t\<close> register is converted on return.\<close>

definition getControlRegA :: "('vc, 'tod, 'z) CIA_scheme \<Rightarrow> bool" where
  "getControlRegA s = (CRA s \<noteq> 0)"

definition setControlRegA :: "uint8_t \<Rightarrow> ('vc, 'tod, 'z) CIA_scheme \<Rightarrow> ('vc, 'tod, 'z) CIA_scheme" where
  "setControlRegA v s = s\<lparr>CRA := v\<rparr>"

section \<open>Timer B\<close>

definition getLatchB :: "('vc, 'tod, 'z) CIA_scheme \<Rightarrow> uint16_t" where
  "getLatchB s = latchB s"

definition setLatchB :: "uint16_t \<Rightarrow> ('vc, 'tod, 'z) CIA_scheme \<Rightarrow> ('vc, 'tod, 'z) CIA_scheme" where
  "setLatchB v s = s\<lparr>latchB := v\<rparr>"

definition getLatchBLo :: "('vc, 'tod, 'z) CIA_scheme \<Rightarrow> uint8_t" where
  "getLatchBLo s = to_uint8 (promote16 (latchB s) AND 0xFF)"

definition setLatchBLo :: "uint8_t \<Rightarrow> ('vc, 'tod, 'z) CIA_scheme \<Rightarrow> ('vc, 'tod, 'z) CIA_scheme" where
  "setLatchBLo v s = s\<lparr>latchB := to_uint16 ((promote16 (latchB s) AND 0xFF00) OR promote8 v)\<rparr>"

definition getLatchBHi :: "('vc, 'tod, 'z) CIA_scheme \<Rightarrow> uint8_t" where
  "getLatchBHi s = to_uint8 (drop_bit 8 (promote16 (latchB s)))"

definition setLatchBHi :: "uint8_t \<Rightarrow> ('vc, 'tod, 'z) CIA_scheme \<Rightarrow> ('vc, 'tod, 'z) CIA_scheme" where
  "setLatchBHi v s = s\<lparr>latchB := to_uint16 (push_bit 8 (promote8 v) OR (promote16 (latchB s) AND 0xFF))\<rparr>"

definition getCounterB :: "('vc, 'tod, 'z) CIA_scheme \<Rightarrow> uint16_t" where
  "getCounterB s = counterB s"

definition setCounterB :: "uint16_t \<Rightarrow> ('vc, 'tod, 'z) CIA_scheme \<Rightarrow> ('vc, 'tod, 'z) CIA_scheme" where
  "setCounterB v s = s\<lparr>counterB := v\<rparr>"

definition getCounterBLo :: "('vc, 'tod, 'z) CIA_scheme \<Rightarrow> uint8_t" where
  "getCounterBLo s = to_uint8 (promote16 (counterB s) AND 0xFF)"

definition setCounterBLo :: "uint8_t \<Rightarrow> ('vc, 'tod, 'z) CIA_scheme \<Rightarrow> ('vc, 'tod, 'z) CIA_scheme" where
  "setCounterBLo v s = s\<lparr>counterB := to_uint16 ((promote16 (counterB s) AND 0xFF00) OR promote8 v)\<rparr>"

definition getCounterBHi :: "('vc, 'tod, 'z) CIA_scheme \<Rightarrow> uint8_t" where
  "getCounterBHi s = to_uint8 (drop_bit 8 (promote16 (counterB s)))"

definition setCounterBHi :: "uint8_t \<Rightarrow> ('vc, 'tod, 'z) CIA_scheme \<Rightarrow> ('vc, 'tod, 'z) CIA_scheme" where
  "setCounterBHi v s = s\<lparr>counterB := to_uint16 (push_bit 8 (promote8 v) OR (promote16 (counterB s) AND 0xFF))\<rparr>"

text \<open>
  \<open>counterB = latchB; delay &= ~CountB2;\<close> The complement is taken in \<open>int\<close> and the
  (negative) result converted to \<open>uint64_t\<close> for the conjunction.
\<close>

definition reloadTimerB :: "('vc, 'tod, 'z) CIA_scheme \<Rightarrow> ('vc, 'tod, 'z) CIA_scheme" where
  "reloadTimerB s = (let s1 = s\<lparr>counterB := latchB s\<rparr>
     in s1\<lparr>delay := delay s1 AND int_to_uint64 (NOT CountB2)\<rparr>)"

definition isStartedB :: "('vc, 'tod, 'z) CIA_scheme \<Rightarrow> bool" where
  "isStartedB s = to_bool (promote8 (CRB s) AND 0x01)"

definition setStartedB :: "bool \<Rightarrow> ('vc, 'tod, 'z) CIA_scheme \<Rightarrow> ('vc, 'tod, 'z) CIA_scheme" where
  "setStartedB b s = (if b then s\<lparr>CRB := to_uint8 (promote8 (CRB s) OR 0x01)\<rparr>
     else s\<lparr>CRB := to_uint8 (promote8 (CRB s) AND 0xFE)\<rparr>)"

definition toggleStartFlagB :: "('vc, 'tod, 'z) CIA_scheme \<Rightarrow> ('vc, 'tod, 'z) CIA_scheme" where
  "toggleStartFlagB s = setStartedB (\<not> isStartedB s) s"

definition forceLoadStrobeB :: "('vc, 'tod, 'z) CIA_scheme \<Rightarrow> bool" where
  "forceLoadStrobeB s = to_bool (promote8 (CRB s) AND 0x10)"

definition willIndicateUnderflowB :: "('vc, 'tod, 'z) CIA_scheme \<Rightarrow> bool" where
  "willIndicateUnderflowB s = to_bool (promote8 (CRB s) AND 0x02)"

definition setIndicateUnderflowB :: "bool \<Rightarrow> ('vc, 'tod, 'z) CIA_scheme \<Rightarrow> ('vc, 'tod, 'z) CIA_scheme" where
  "setIndicateUnderflowB b s = (if b then s\<lparr>CRB := to_uint8 (promote8 (CRB s) OR 0x02)\<rparr>
     else s\<lparr>CRB := to_uint8 (promote8 (CRB s) AND (0xFF - 0x02))\<rparr>)"

definition toggleUnderflowFlagB :: "('vc, 'tod, 'z) CIA_scheme \<Rightarrow> ('vc, 'tod, 'z) CIA_scheme" where
  "toggleUnderflowFlagB s = setIndicateUnderflowB (\<not> willIndicateUnderflowB s) s"

definition willIndicateUnderflowAsPulseB :: "('vc, 'tod, 'z) CIA_scheme \<Rightarrow> bool" where
  "willIndicateUnderflowAsPulseB s = (\<not> to_bool (promote8 (CRB s) AND 0x04))"

definition isOneShotB :: "('vc, 'tod, 'z) CIA_scheme \<Rightarrow> bool" where
  "isOneShotB s = to_bool (promote8 (CRB s) AND 0x08)"

definition setOneShotB :: "bool \<Rightarrow> ('vc, 'tod, 'z) CIA_scheme \<Rightarrow> ('vc, 'tod, 'z) CIA_scheme" where
  "setOneShotB b s = (if b then s\<lparr>CRB := to_uint8 (promote8 (CRB s) OR 0x08)\<rparr>
     else s\<lparr>CRB := to_uint8 (promote8 (CRB s) AND (0xff - 0x08))\<rparr>)"

definition toggleOneShotFlagB :: "('vc, 'tod, 'z) CIA_scheme \<Rightarrow> ('vc, 'tod, 'z) CIA_scheme" where
  "toggleOneShotFlagB s = setOneShotB (\<not> isOneShotB s) s"

definition isCountingClockTicksB :: "('vc, 'tod, 'z) CIA_scheme \<Rightarrow> bool" where
  "isCountingClockTicksB s = ((promote8 (CRB s) AND 0x20) = 0x00)"

text \<open>The return type is \<open>bool\<close>: the \<open>uint8_t\<close> register is converted on return.\<close>

definition getControlRegB :: "('vc, 'tod, 'z) CIA_scheme \<Rightarrow> bool" where
  "getControlRegB s = (CRB s \<noteq> 0)"

definition setControlRegB :: "uint8_t \<Rightarrow> ('vc, 'tod, 'z) CIA_scheme \<Rightarrow> ('vc, 'tod, 'z) CIA_scheme" where
  "setControlRegB v s = s\<lparr>CRB := v\<rparr>"


section \<open>A concrete chip state\<close>

text \<open>
  A state on which the accessors are evaluated: both latches \<open>0xFFFF\<close>, every other
  register zero, no inherited or clock state.
\<close>

definition sample_state :: "(unit, unit) CIA" where
  "sample_state = \<lparr>component = (), SDR = 0, serClk = False, serCounter = 0,
     serial_int_count = 0, f_cnt_out = False, todAlarm = False,
     counterA = 0, latchA = 0xFFFF, counterB = 0, latchB = 0xFFFF, tod = (),
     delay = 0, feed = 0, CRA = 0, CRB = 0, ICR = 0, IMR = 0,
     PB67TimerMode = 0, PB67TimerOut = 0, PB67Toggle = 0, PALatch = 0, PBLatch = 0,
     DDRA = 0, DDRB = 0, PA = 0, PB = 0, CNT = True, INT_pin = True\<rparr>"


section \<open>Event constants and the delay mask\<close>

lemmas event_defs = CountA0_def CountA1_def CountA2_def CountA3_def CountB0_def CountB1_def
  CountB2_def CountB3_def LoadA0_def LoadA1_def LoadA2_def LoadB0_def LoadB1_def LoadB2_def
  PB6Low0_def PB6Low1_def PB7Low0_def PB7Low1_def Interrupt0_def Interrupt1_def OneShotA0_def
  OneShotB0_def ReadIcr0_def ReadIcr1_def ClearIcr0_def ClearIcr1_def ClearIcr2_def SetIcr0_def
  SetIcr1_def TODInt0_def Cnt0_def Cnt1_def Cnt2_def SerInt0_def SerInt1_def SerInt2_def
  SerLoad0_def SerLoad1_def SerClk0_def SerClk1_def SerClk2_def SerClk3_def
  SetCntFlip0_def SetCntFlip1_def SetCntFlip2_def SetCntFlip3_def
  SetCnt0_def SetCnt1_def SetCnt2_def SetCnt3_def

lemma delay_events_positions:
  "delay_events = map (\<lambda>k. 2 ^ k) ([0..<30] @ [44..<56] @ [34..<42])"
  by (simp add: delay_events_def event_defs int_to_uint64_def upt_rec)

lemma stage0_events_positions:
  "stage0_events = map (\<lambda>k. 2 ^ k)
     [0, 4, 8, 11, 14, 16, 18, 20, 21, 22, 24, 27, 29, 44, 47, 50, 52, 34, 38]"
  by (simp add: stage0_events_def event_defs int_to_uint64_def)

lemma exp_word64_inj:
  assumes "(2 :: uint64_t) ^ n = 2 ^ m" and "n < 64"
  shows "n = m"
proof -
  have "bit ((2 :: uint64_t) ^ n) n" using assms(2) by (simp add: bit_exp_iff)
  then have "bit ((2 :: uint64_t) ^ m) n" using assms(1) by simp
  then show ?thesis by (simp add: bit_exp_iff)
qed

lemma delay_events_distinct: "distinct delay_events"
proof -
  have "distinct ([0..<30] @ [44..<56] @ [34..<42 :: nat])"
    by auto
  moreover have "inj_on (\<lambda>k. (2 :: uint64_t) ^ k) {..<64}"
    by (rule inj_onI) (auto dest: exp_word64_inj)
  then have "inj_on (\<lambda>k. (2 :: uint64_t) ^ k) (set ([0..<30] @ [44..<56] @ [34..<42]))"
    by (rule inj_on_subset) auto
  ultimately show ?thesis
    unfolding delay_events_positions by (simp only: distinct_map) 
qed

lemma DelayMask_fold: "DelayMask = NOT (fold (OR) stage0_events 0)"
  by (simp add: DelayMask_def stage0_events_def event_defs int_to_uint64_def)

lemma DelayMask_exp: "DelayMask = NOT (2 ^ 0 OR 2 ^ 4 OR 2 ^ 8 OR 2 ^ 11 OR 2 ^ 14 OR 2 ^ 16 OR 2 ^ 18 
   OR 2 ^ 20 OR 2 ^ 21 OR 2 ^ 22 OR 2 ^ 24 OR 2 ^ 27 OR 2 ^ 29 OR 2 ^ 44 OR 2 ^ 47 OR 2 ^ 50 OR 2 ^ 52 OR 2 ^ 34 OR 2 ^ 38)"
  by (simp add: DelayMask_def event_defs int_to_uint64_def)

lemma DelayMask_bits:
  "bit (x AND DelayMask) n \<longleftrightarrow> bit x n \<and>
     n \<notin> set [0, 4, 8, 11, 14, 16, 18, 20, 21, 22, 24, 27, 29, 44, 47, 50, 52, 34, 38]"
proof -
  have "bit (x AND DelayMask) n \<longleftrightarrow> bit x n \<and> n < 64 \<and>
     \<not> (n = 0 \<or> n = 4 \<or> n = 8 \<or> n = 11 \<or> n = 14 \<or> n = 16 \<or> n = 18 \<or> n = 20 \<or> n = 21
       \<or> n = 22 \<or> n = 24 \<or> n = 27 \<or> n = 29 \<or> n = 44 \<or> n = 47 \<or> n = 50 \<or> n = 52
       \<or> n = 34 \<or> n = 38)"
    unfolding DelayMask_exp
    by (simp only: bit_and_iff bit_or_iff bit_not_iff bit_exp_iff possible_bit_word) auto
  moreover have "bit x n \<Longrightarrow> n < 64"
    using bit_imp_le_length [of x n] by simp
  ultimately show ?thesis by auto
qed

text \<open>
  C8: the fifty event constants of CIA.h are pairwise distinct single bits of the 64-bit
  delay word (bits 0 to 29, 44 to 55 and 34 to 41 in header order), and \<open>DelayMask\<close> is
  the complement of the union of the nineteen stage-0 events, so a conjunction with
  \<open>DelayMask\<close> clears exactly the stage-0 bits and keeps every other bit.
\<close>

theorem delay_event_constants:
  "delay_events = map (\<lambda>k. 2 ^ k) ([0..<30] @ [44..<56] @ [34..<42])
   \<and> distinct delay_events
   \<and> stage0_events = map (\<lambda>k. 2 ^ k)
         [0, 4, 8, 11, 14, 16, 18, 20, 21, 22, 24, 27, 29, 44, 47, 50, 52, 34, 38]
   \<and> length stage0_events = 19
   \<and> DelayMask = NOT (fold (OR) stage0_events 0)
   \<and> (\<forall>x n. bit (x AND DelayMask) n \<longleftrightarrow> bit x n \<and>
         n \<notin> set [0, 4, 8, 11, 14, 16, 18, 20, 21, 22, 24, 27, 29, 44, 47, 50, 52, 34, 38])"
proof -
  have "length stage0_events = 19"
    by (simp add: stage0_events_positions)
  then show ?thesis
    using delay_events_positions delay_events_distinct stage0_events_positions
      DelayMask_fold DelayMask_bits
    by blast
qed

theorem delay_event_constants_witness:
  "\<not> bit ((- 1) AND DelayMask) 4 \<and> bit ((- 1) AND DelayMask) 5 \<and> length stage0_events = 19"
proof -
  have bits: "bit ((- 1) AND DelayMask) n \<longleftrightarrow> bit (- 1 :: uint64_t) n \<and>
         n \<notin> set [0, 4, 8, 11, 14, 16, 18, 20, 21, 22, 24, 27, 29, 44, 47, 50, 52, 34, 38]" for n
    using delay_event_constants by blast
  have len: "length stage0_events = 19"
    using delay_event_constants by blast
  show ?thesis
    using bits [of 4] bits [of 5] len by simp
qed

section \<open>Promotion and truncation\<close>

lemma promote8_and: "promote8 x AND c = promote8 (x AND to_uint8 c)"
  by (rule bit_word_eqI) (auto simp: promote8_def to_uint8_def bit_simps dest: bit_imp_le_length)

lemma to_uint8_promote8: "to_uint8 (promote8 x) = x"
  by (rule bit_word_eqI) (auto simp: promote8_def to_uint8_def bit_simps)

lemma promote8_eq_0: "promote8 x = 0 \<longleftrightarrow> x = 0"
proof
  assume "promote8 x = 0"
  then have "to_uint8 (promote8 x) = to_uint8 0" by simp
  then show "x = 0" unfolding to_uint8_promote8 by (simp add: to_uint8_def)
qed (simp add: promote8_def)

lemma to_uint8_or: "to_uint8 (promote8 x OR c) = x OR to_uint8 c"
  by (rule bit_word_eqI) (auto simp: promote8_def to_uint8_def bit_simps)

lemma to_uint8_and: "to_uint8 (promote8 x AND c) = x AND to_uint8 c"
  by (rule bit_word_eqI) (auto simp: promote8_def to_uint8_def bit_simps)

lemma to_bool_and: "to_bool (promote8 x AND c) \<longleftrightarrow> x AND to_uint8 c \<noteq> 0"
  by (simp add: to_bool_def promote8_and promote8_eq_0)

lemma to_uint8_consts:
  "to_uint8 1 = 1" "to_uint8 2 = 2" "to_uint8 4 = 4" "to_uint8 8 = 8" "to_uint8 16 = 16"
  "to_uint8 32 = 32" "to_uint8 254 = 254" "to_uint8 253 = 253" "to_uint8 251 = 251"
  "to_uint8 247 = 247" "to_uint8 239 = 239"
  by (simp_all add: to_uint8_def)

lemmas flag_simps = to_uint8_or to_uint8_and to_bool_and to_uint8_consts

section \<open>Flag getters and setters on the registers\<close>

lemma flag_getters:
  "isInterruptEnabledA s \<longleftrightarrow> IMR s AND 0x01 \<noteq> 0"
  "isInterruptEnabledB s \<longleftrightarrow> IMR s AND 0x02 \<noteq> 0"
  "isInterruptEnabledTOD s \<longleftrightarrow> ICR s AND 0x04 \<noteq> 0"
  "isInterruptEnabledFlg s \<longleftrightarrow> ICR s AND 0x10 \<noteq> 0"
  "isSignalPendingA s \<longleftrightarrow> ICR s AND 0x01 \<noteq> 0"
  "isSignalPendingB s \<longleftrightarrow> ICR s AND 0x02 \<noteq> 0"
  "isStartedA s \<longleftrightarrow> CRA s AND 0x01 \<noteq> 0"
  "isStartedB s \<longleftrightarrow> CRB s AND 0x01 \<noteq> 0"
  "willIndicateUnderflowA s \<longleftrightarrow> CRA s AND 0x02 \<noteq> 0"
  "willIndicateUnderflowB s \<longleftrightarrow> CRB s AND 0x02 \<noteq> 0"
  "isOneShotA s \<longleftrightarrow> CRA s AND 0x08 \<noteq> 0"
  "isOneShotB s \<longleftrightarrow> CRB s AND 0x08 \<noteq> 0"
  by (simp_all add: isInterruptEnabledA_def isInterruptEnabledB_def isInterruptEnabledTOD_def
      isInterruptEnabledFlg_def isSignalPendingA_def isSignalPendingB_def isStartedA_def
      isStartedB_def willIndicateUnderflowA_def willIndicateUnderflowB_def isOneShotA_def
      isOneShotB_def flag_simps)

lemma flag_setters:
  "setInterruptEnabledA b s = s\<lparr>IMR := (if b then IMR s OR 0x01 else IMR s AND 0xFE)\<rparr>"
  "setInterruptEnabledB b s = s\<lparr>IMR := (if b then IMR s OR 0x02 else IMR s AND 0xFD)\<rparr>"
  "setInterruptEnabledTOD b s = s\<lparr>ICR := (if b then ICR s OR 0x04 else ICR s AND 0xFB)\<rparr>"
  "setInterruptEnabledFlg b s = s\<lparr>ICR := (if b then ICR s OR 0x10 else ICR s AND 0xEF)\<rparr>"
  "setSignalPendingA b s = s\<lparr>ICR := (if b then ICR s OR 0x01 else ICR s AND 0xFE)\<rparr>"
  "setSignalPendingB b s = s\<lparr>ICR := (if b then ICR s OR 0x02 else ICR s AND 0xFD)\<rparr>"
  "setStartedA b s = s\<lparr>CRA := (if b then CRA s OR 0x01 else CRA s AND 0xFE)\<rparr>"
  "setStartedB b s = s\<lparr>CRB := (if b then CRB s OR 0x01 else CRB s AND 0xFE)\<rparr>"
  "setIndicateUnderflowA b s = s\<lparr>CRA := (if b then CRA s OR 0x02 else CRA s AND 0xFD)\<rparr>"
  "setIndicateUnderflowB b s = s\<lparr>CRB := (if b then CRB s OR 0x02 else CRB s AND 0xFD)\<rparr>"
  "setOneShotA b s = s\<lparr>CRA := (if b then CRA s OR 0x08 else CRA s AND 0xF7)\<rparr>"
  "setOneShotB b s = s\<lparr>CRB := (if b then CRB s OR 0x08 else CRB s AND 0xF7)\<rparr>"
  by (simp_all add: setInterruptEnabledA_def setInterruptEnabledB_def setInterruptEnabledTOD_def
      setInterruptEnabledFlg_def setSignalPendingA_def setSignalPendingB_def setStartedA_def
      setStartedB_def setIndicateUnderflowA_def setIndicateUnderflowB_def setOneShotA_def
      setOneShotB_def flag_simps)

section \<open>Toggle helpers\<close>

lemma flip_bit_word8:
  fixes x :: uint8_t
  shows "x AND 2 ^ k = 0 \<Longrightarrow> x OR 2 ^ k = x XOR 2 ^ k"
    and "x AND 2 ^ k \<noteq> 0 \<Longrightarrow> x AND NOT (2 ^ k) = x XOR 2 ^ k"
  by (rule bit_word_eqI; auto simp: bit_simps and_exp_eq_0_iff_not_bit)+

lemma flip_bit_consts:
  fixes x :: uint8_t
  shows "(if x AND 1 = 0 then x OR 1 else x AND 254) = x XOR 1"
    and "(if x AND 2 = 0 then x OR 2 else x AND 253) = x XOR 2"
    and "(if x AND 8 = 0 then x OR 8 else x AND 247) = x XOR 8"
proof -
  have c: "(254::uint8_t) = - 2" "(253::uint8_t) = - 3" "(247::uint8_t) = - 9"
    by simp_all
  show "(if x AND 1 = 0 then x OR 1 else x AND 254) = x XOR 1"
    using flip_bit_word8 [of x 0] unfolding c by (simp split: if_splits)
  show "(if x AND 2 = 0 then x OR 2 else x AND 253) = x XOR 2"
    using flip_bit_word8 [of x 1] unfolding c by (simp split: if_splits)
  show "(if x AND 8 = 0 then x OR 8 else x AND 247) = x XOR 8"
    using flip_bit_word8 [of x 3] unfolding c by (simp split: if_splits)
qed

lemma xor_twice:
  fixes x :: uint8_t
  shows "(x XOR m) XOR m = x"
  by (simp add: xor.assoc)

lemmas toggle_defs = toggleInterruptEnableFlagA_def toggleInterruptEnableFlagB_def
  togglePendingSignalFlagA_def togglePendingSignalFlagB_def toggleStartFlagA_def
  toggleStartFlagB_def toggleUnderflowFlagA_def toggleUnderflowFlagB_def
  toggleOneShotFlagA_def toggleOneShotFlagB_def

lemma toggle_effects:
  "toggleInterruptEnableFlagA s = s\<lparr>IMR := IMR s XOR 0x01\<rparr>"
  "toggleInterruptEnableFlagB s = s\<lparr>IMR := IMR s XOR 0x02\<rparr>"
  "togglePendingSignalFlagA s = s\<lparr>ICR := ICR s XOR 0x01\<rparr>"
  "togglePendingSignalFlagB s = s\<lparr>ICR := ICR s XOR 0x02\<rparr>"
  "toggleStartFlagA s = s\<lparr>CRA := CRA s XOR 0x01\<rparr>"
  "toggleStartFlagB s = s\<lparr>CRB := CRB s XOR 0x01\<rparr>"
  "toggleUnderflowFlagA s = s\<lparr>CRA := CRA s XOR 0x02\<rparr>"
  "toggleUnderflowFlagB s = s\<lparr>CRB := CRB s XOR 0x02\<rparr>"
  "toggleOneShotFlagA s = s\<lparr>CRA := CRA s XOR 0x08\<rparr>"
  "toggleOneShotFlagB s = s\<lparr>CRB := CRB s XOR 0x08\<rparr>"
  by (simp_all add: toggle_defs flag_getters flag_setters flip_bit_consts)

lemma toggle_involutions:
  "toggleInterruptEnableFlagA (toggleInterruptEnableFlagA s) = s"
  "toggleInterruptEnableFlagB (toggleInterruptEnableFlagB s) = s"
  "togglePendingSignalFlagA (togglePendingSignalFlagA s) = s"
  "togglePendingSignalFlagB (togglePendingSignalFlagB s) = s"
  "toggleStartFlagA (toggleStartFlagA s) = s"
  "toggleStartFlagB (toggleStartFlagB s) = s"
  "toggleUnderflowFlagA (toggleUnderflowFlagA s) = s"
  "toggleUnderflowFlagB (toggleUnderflowFlagB s) = s"
  "toggleOneShotFlagA (toggleOneShotFlagA s) = s"
  "toggleOneShotFlagB (toggleOneShotFlagB s) = s"
  by (simp_all add: toggle_effects xor_twice)


text \<open>
  C10: each of the ten toggle helpers flips exactly one bit of the register it addresses
  (\<open>flip_bit k\<close>), leaves every other field as it was, and applied twice gives back the
  state it started from.
\<close>

theorem toggle_helpers_involutive:
  "toggleStartFlagA s = s\<lparr>CRA := flip_bit 0 (CRA s)\<rparr>
   \<and> toggleStartFlagB s = s\<lparr>CRB := flip_bit 0 (CRB s)\<rparr>
   \<and> toggleUnderflowFlagA s = s\<lparr>CRA := flip_bit 1 (CRA s)\<rparr>
   \<and> toggleUnderflowFlagB s = s\<lparr>CRB := flip_bit 1 (CRB s)\<rparr>
   \<and> toggleOneShotFlagA s = s\<lparr>CRA := flip_bit 3 (CRA s)\<rparr>
   \<and> toggleOneShotFlagB s = s\<lparr>CRB := flip_bit 3 (CRB s)\<rparr>
   \<and> toggleInterruptEnableFlagA s = s\<lparr>IMR := flip_bit 0 (IMR s)\<rparr>
   \<and> toggleInterruptEnableFlagB s = s\<lparr>IMR := flip_bit 1 (IMR s)\<rparr>
   \<and> togglePendingSignalFlagA s = s\<lparr>ICR := flip_bit 0 (ICR s)\<rparr>
   \<and> togglePendingSignalFlagB s = s\<lparr>ICR := flip_bit 1 (ICR s)\<rparr>
   \<and> toggleStartFlagA (toggleStartFlagA s) = s
   \<and> toggleStartFlagB (toggleStartFlagB s) = s
   \<and> toggleUnderflowFlagA (toggleUnderflowFlagA s) = s
   \<and> toggleUnderflowFlagB (toggleUnderflowFlagB s) = s
   \<and> toggleOneShotFlagA (toggleOneShotFlagA s) = s
   \<and> toggleOneShotFlagB (toggleOneShotFlagB s) = s
   \<and> toggleInterruptEnableFlagA (toggleInterruptEnableFlagA s) = s
   \<and> toggleInterruptEnableFlagB (toggleInterruptEnableFlagB s) = s
   \<and> togglePendingSignalFlagA (togglePendingSignalFlagA s) = s
   \<and> togglePendingSignalFlagB (togglePendingSignalFlagB s) = s"
  by (simp add: toggle_effects xor_twice flip_bit_eq_xor)

theorem toggle_helpers_involutive_witness:
  "CRA (toggleOneShotFlagA sample_state) = 0x08
   \<and> toggleOneShotFlagA (toggleOneShotFlagA sample_state) = sample_state
   \<and> IMR (toggleInterruptEnableFlagB sample_state) = 0x02"
proof -
  have flip: "toggleOneShotFlagA sample_state
      = sample_state\<lparr>CRA := flip_bit 3 (CRA sample_state)\<rparr>"
    and twice: "toggleOneShotFlagA (toggleOneShotFlagA sample_state) = sample_state"
    and mask: "toggleInterruptEnableFlagB sample_state
      = sample_state\<lparr>IMR := flip_bit 1 (IMR sample_state)\<rparr>"
    using toggle_helpers_involutive [of sample_state] by blast+
  have "CRA (toggleOneShotFlagA sample_state) = 0x08"
    unfolding flip by (simp add: sample_state_def flip_bit_eq_xor)
  moreover have "IMR (toggleInterruptEnableFlagB sample_state) = 0x02"
    unfolding mask by (simp add: sample_state_def flip_bit_eq_xor)
  ultimately show ?thesis using twice by simp
qed

section \<open>Clock-source predicates on the control registers\<close>

lemma isCountingClockTicks_bit5:
  "isCountingClockTicksA s \<longleftrightarrow> \<not> bit (CRA s) 5"
  "isCountingClockTicksB s \<longleftrightarrow> \<not> bit (CRB s) 5"
  using and_exp_eq_0_iff_not_bit [of "CRA s" 5] and_exp_eq_0_iff_not_bit [of "CRB s" 5]
  by (simp_all add: isCountingClockTicksA_def isCountingClockTicksB_def promote8_and
      promote8_eq_0 to_uint8_consts)

text \<open>
  C4: with \<open>CRB = 0x40\<close> (bit 6 set, bit 5 clear: Timer B counts underflows of Timer A)
  \<open>isCountingClockTicksB\<close> returns true, and likewise it returns true for every
  \<open>CRB\<close> with bit 5 clear, whatever bit 6 is.
\<close>

theorem isCountingClockTicksB_ignores_bit6:
  "isCountingClockTicksB (s\<lparr>CRB := 0x40\<rparr>) \<and> bit (CRB (s\<lparr>CRB := 0x40\<rparr>)) 6"
  by (simp add: isCountingClockTicks_bit5)

section \<open>Interrupt enable accessors and the two registers\<close>

lemma interrupt_enable_timers:
  "IMR (setInterruptEnabledA b s) = (if b then IMR s OR 0x01 else IMR s AND 0xFE)"
  "ICR (setInterruptEnabledA b s) = ICR s"
  "IMR (setInterruptEnabledB b s) = (if b then IMR s OR 0x02 else IMR s AND 0xFD)"
  "ICR (setInterruptEnabledB b s) = ICR s"
  by (simp_all add: flag_setters)

text \<open>None of the flag setters of the header writes the \<open>INT\<close> pin.\<close>

lemma flag_setters_keep_INT:
  "INT_pin (setInterruptEnabledA b s) = INT_pin s"
  "INT_pin (setInterruptEnabledB b s) = INT_pin s"
  "INT_pin (setInterruptEnabledTOD b s) = INT_pin s"
  "INT_pin (setInterruptEnabledFlg b s) = INT_pin s"
  "INT_pin (setSignalPendingA b s) = INT_pin s"
  "INT_pin (setSignalPendingB b s) = INT_pin s"
  by (simp_all add: flag_setters)

text \<open>
  C2: \<open>setInterruptEnabledTOD(true)\<close> and \<open>setInterruptEnabledFlg(true)\<close> on a chip with
  \<open>ICR = 0\<close> and \<open>IMR = 0\<close> leave \<open>IMR\<close> at 0 and set bit \<open>0x04\<close>, respectively \<open>0x10\<close>,
  of \<open>ICR\<close>; \<open>isInterruptEnabledTOD\<close> and \<open>isInterruptEnabledFlg\<close> return false on a chip
  whose \<open>IMR\<close> has the bit set and whose \<open>ICR\<close> is 0.
\<close>

theorem interrupt_enable_TOD_Flg_use_ICR:
  "IMR (setInterruptEnabledTOD True (s\<lparr>ICR := 0, IMR := 0\<rparr>)) = 0
   \<and> ICR (setInterruptEnabledTOD True (s\<lparr>ICR := 0, IMR := 0\<rparr>)) = 0x04
   \<and> IMR (setInterruptEnabledFlg True (s\<lparr>ICR := 0, IMR := 0\<rparr>)) = 0
   \<and> ICR (setInterruptEnabledFlg True (s\<lparr>ICR := 0, IMR := 0\<rparr>)) = 0x10
   \<and> isInterruptEnabledTOD (s\<lparr>ICR := 0, IMR := 0x04\<rparr>) = False
   \<and> isInterruptEnabledFlg (s\<lparr>ICR := 0, IMR := 0x10\<rparr>) = False"
  by (simp add: flag_setters flag_getters)

section \<open>Reading back a control register\<close>

text \<open>
  C9: after \<open>setControlRegA(v)\<close> the getter returns the truth value of \<open>v \<noteq> 0\<close>, which
  as an integer is 1 for non-zero \<open>v\<close> and 0 for \<open>v = 0\<close>; it equals \<open>v\<close> exactly when
  \<open>v\<close> is 0 or 1. The same holds for register B.
\<close>

theorem control_register_getter_truncates:
  "getControlRegA (setControlRegA v s) = (v \<noteq> 0)
   \<and> bool_to_int (getControlRegA (setControlRegA v s)) = (if v = 0 then 0 else 1)
   \<and> (bool_to_int (getControlRegA (setControlRegA v s)) = promote8 v) = (v = 0 \<or> v = 1)
   \<and> getControlRegB (setControlRegB v s) = (v \<noteq> 0)
   \<and> bool_to_int (getControlRegB (setControlRegB v s)) = (if v = 0 then 0 else 1)
   \<and> (bool_to_int (getControlRegB (setControlRegB v s)) = promote8 v) = (v = 0 \<or> v = 1)"
proof -
  have one: "promote8 v = 1 \<longleftrightarrow> v = 1"
  proof
    assume "promote8 v = 1"
    then have "to_uint8 (promote8 v) = to_uint8 1" by simp
    then show "v = 1" by (simp add: to_uint8_promote8 to_uint8_consts)
  qed (simp add: promote8_def)
  have "(1 = promote8 v) = (v = 1)"
    using one by auto
  then show ?thesis
    by (auto simp: getControlRegA_def setControlRegA_def getControlRegB_def setControlRegB_def
        bool_to_int_def promote8_def)
qed

theorem control_register_getter_truncates_witness:
  "getControlRegA (setControlRegA 0x11 sample_state)
   \<and> bool_to_int (getControlRegA (setControlRegA 0x11 sample_state)) = 1
   \<and> bool_to_int (getControlRegA (setControlRegA 0x11 sample_state)) \<noteq> promote8 0x11"
  using control_register_getter_truncates [of "0x11" sample_state]
  by (simp add: bool_to_int_def promote8_def)


section \<open>Reloading a timer\<close>

lemma reloadTimer_unset:
  "reloadTimerA s = s\<lparr>counterA := latchA s, delay := unset_bit 2 (delay s)\<rparr>"
  "reloadTimerB s = s\<lparr>counterB := latchB s, delay := unset_bit 6 (delay s)\<rparr>"
  by (simp_all add: reloadTimerA_def reloadTimerB_def int_to_uint64_def CountA2_def CountB2_def
      unset_bit_eq_and_not)

text \<open>
  C5: \<open>reloadTimerA\<close> copies \<open>latchA\<close> into \<open>counterA\<close> and clears bit 2 of the delay word,
  the bit of \<open>CountA2\<close>; every other bit of \<open>delay\<close> and every other field of the chip is
  unchanged. \<open>reloadTimerB\<close> does the same with \<open>latchB\<close>, \<open>counterB\<close> and bit 6, the bit of
  \<open>CountB2\<close>.
\<close>

theorem reloadTimer_effect_and_frame:
  "reloadTimerA s = s\<lparr>counterA := latchA s, delay := unset_bit 2 (delay s)\<rparr>
   \<and> int_to_uint64 CountA2 = 2 ^ 2
   \<and> (\<forall>n. bit (delay (reloadTimerA s)) n \<longleftrightarrow> bit (delay s) n \<and> n \<noteq> 2)
   \<and> reloadTimerB s = s\<lparr>counterB := latchB s, delay := unset_bit 6 (delay s)\<rparr>
   \<and> int_to_uint64 CountB2 = 2 ^ 6
   \<and> (\<forall>n. bit (delay (reloadTimerB s)) n \<longleftrightarrow> bit (delay s) n \<and> n \<noteq> 6)"
proof -
  have "int_to_uint64 CountA2 = 2 ^ 2" "int_to_uint64 CountB2 = 2 ^ 6"
    by (simp_all add: int_to_uint64_def CountA2_def CountB2_def)
  moreover have "bit (delay (reloadTimerA s)) n \<longleftrightarrow> bit (delay s) n \<and> n \<noteq> 2" for n
    by (auto simp: reloadTimer_unset bit_unset_bit_iff)
  moreover have "bit (delay (reloadTimerB s)) n \<longleftrightarrow> bit (delay s) n \<and> n \<noteq> 6" for n
    by (auto simp: reloadTimer_unset bit_unset_bit_iff)
  ultimately show ?thesis
    using reloadTimer_unset [of s] by blast
qed

theorem reloadTimer_effect_and_frame_witness:
  "counterA (reloadTimerA (sample_state\<lparr>delay := 0x0F\<rparr>)) = 0xFFFF
   \<and> delay (reloadTimerA (sample_state\<lparr>delay := 0x0F\<rparr>)) = 0x0B
   \<and> counterB (reloadTimerA (sample_state\<lparr>delay := 0x0F\<rparr>)) = 0"
proof -
  have "reloadTimerA (sample_state\<lparr>delay := 0x0F\<rparr>)
      = sample_state\<lparr>delay := 0x0F, counterA := latchA (sample_state\<lparr>delay := 0x0F\<rparr>),
          delay := unset_bit 2 (delay (sample_state\<lparr>delay := 0x0F\<rparr>))\<rparr>"
    using reloadTimer_effect_and_frame [of "sample_state\<lparr>delay := 0x0F\<rparr>"] by blast
  then show ?thesis
    by (simp add: sample_state_def unset_bit_eq_and_not)
qed

section \<open>Writing latch halves\<close>

lemma byte_masks: "(0xFF :: cint) = mask 8" "(0xFF00 :: cint) = push_bit 8 (mask 8)"
  by (simp_all add: mask_eq_exp_minus_1)

lemma latch_lo_of_set_lo:
  "to_uint8 (promote16 (to_uint16 ((promote16 l AND 0xFF00) OR promote8 v)) AND 0xFF) = v"
  unfolding byte_masks
  by (rule bit_word_eqI)
    (auto simp: to_uint8_def to_uint16_def promote8_def promote16_def bit_simps)

lemma latch_hi_of_set_lo:
  "to_uint8 (drop_bit 8 (promote16 (to_uint16 ((promote16 l AND 0xFF00) OR promote8 v))))
     = to_uint8 (drop_bit 8 (promote16 l))"
  unfolding byte_masks
  by (rule bit_word_eqI)
    (auto simp: to_uint8_def to_uint16_def promote8_def promote16_def bit_simps
      dest: bit_imp_le_length)

lemma latch_hi_of_set_hi:
  "to_uint8 (drop_bit 8 (promote16 (to_uint16 (push_bit 8 (promote8 v)
      OR (promote16 l AND 0xFF))))) = v"
  unfolding byte_masks
  by (rule bit_word_eqI)
    (auto simp: to_uint8_def to_uint16_def promote8_def promote16_def bit_simps)

lemma latch_lo_of_set_hi:
  "to_uint8 (promote16 (to_uint16 (push_bit 8 (promote8 v) OR (promote16 l AND 0xFF))) AND 0xFF)
     = to_uint8 (promote16 l AND 0xFF)"
  unfolding byte_masks
  by (rule bit_word_eqI)
    (auto simp: to_uint8_def to_uint16_def promote8_def promote16_def bit_simps)


text \<open>
  C7: writing one half of a latch makes the getter of that half return the written byte,
  leaves the other half as read by its getter, and leaves both counters unchanged; this
  holds for the low and the high half of \<open>latchA\<close> and of \<open>latchB\<close>.
\<close>

theorem latch_half_write_roundtrip:
  "getLatchALo (setLatchALo v s) = v
   \<and> getLatchAHi (setLatchALo v s) = getLatchAHi s
   \<and> getCounterA (setLatchALo v s) = getCounterA s
   \<and> getCounterB (setLatchALo v s) = getCounterB s
   \<and> getLatchAHi (setLatchAHi v s) = v
   \<and> getLatchALo (setLatchAHi v s) = getLatchALo s
   \<and> getCounterA (setLatchAHi v s) = getCounterA s
   \<and> getCounterB (setLatchAHi v s) = getCounterB s
   \<and> getLatchBLo (setLatchBLo v s) = v
   \<and> getLatchBHi (setLatchBLo v s) = getLatchBHi s
   \<and> getCounterA (setLatchBLo v s) = getCounterA s
   \<and> getCounterB (setLatchBLo v s) = getCounterB s
   \<and> getLatchBHi (setLatchBHi v s) = v
   \<and> getLatchBLo (setLatchBHi v s) = getLatchBLo s
   \<and> getCounterA (setLatchBHi v s) = getCounterA s
   \<and> getCounterB (setLatchBHi v s) = getCounterB s"
  by (simp add: getLatchALo_def getLatchAHi_def setLatchALo_def setLatchAHi_def
      getLatchBLo_def getLatchBHi_def setLatchBLo_def setLatchBHi_def
      getCounterA_def getCounterB_def
      latch_lo_of_set_lo latch_hi_of_set_lo latch_hi_of_set_hi latch_lo_of_set_hi)

theorem latch_half_write_roundtrip_witness:
  "getLatchALo (setLatchALo 0x34 sample_state) = 0x34
   \<and> getLatchAHi (setLatchALo 0x34 sample_state) = 0xFF
   \<and> getCounterA (setLatchALo 0x34 sample_state) = 0"
proof -
  have "getLatchALo (setLatchALo 0x34 sample_state) = 0x34"
    and "getLatchAHi (setLatchALo 0x34 sample_state) = getLatchAHi sample_state"
    and "getCounterA (setLatchALo 0x34 sample_state) = getCounterA sample_state"
    using latch_half_write_roundtrip [of "0x34" sample_state] by blast+
  then show ?thesis
    by (simp add: sample_state_def getLatchAHi_def getCounterA_def promote16_def to_uint8_def)
qed

section \<open>Partition of the address range\<close>

lemmas addr_defs = isCiaAddr_def isCia1Addr_def isCia2Addr_def CIA_START_ADDR_def
  CIA_END_ADDR_def CIA1_START_ADDR_def CIA1_END_ADDR_def CIA2_START_ADDR_def CIA2_END_ADDR_def

lemma addr_word_order:
  "isCiaAddr a = (0xDC00 \<le> a \<and> a \<le> 0xDDFF)"
  "isCia1Addr a = (0xDC00 \<le> a \<and> a \<le> 0xDCFF)"
  "isCia2Addr a = (0xDD00 \<le> a \<and> a \<le> 0xDDFF)"
  unfolding addr_defs by (simp_all add: word_le_def)

lemma addr_ranges:
  "isCiaAddr a = (0xDC00 \<le> unat a \<and> unat a \<le> 0xDDFF)"
  "isCia1Addr a = (0xDC00 \<le> unat a \<and> unat a \<le> 0xDCFF)"
  "isCia2Addr a = (0xDD00 \<le> unat a \<and> unat a \<le> 0xDDFF)"
  unfolding addr_word_order by (simp_all add: word_le_nat_alt)

lemma card_word_window:
  fixes S :: "uint16_t set"
  assumes "\<And>a. a \<in> S \<longleftrightarrow> lo \<le> unat a \<and> unat a \<le> hi" and "hi < 65536"
  shows "card S = Suc hi - lo"
proof -
  have "unat ` S = {lo..hi}"
  proof (rule set_eqI)
    fix n show "n \<in> unat ` S \<longleftrightarrow> n \<in> {lo..hi}"
    proof
      assume "n \<in> unat ` S" then show "n \<in> {lo..hi}" using assms(1) by auto
    next
      assume n: "n \<in> {lo..hi}"
      then have "n < 2 ^ LENGTH(16)" using assms(2) by simp
      then have inv: "unat (of_nat n :: uint16_t) = n"
        by (simp add: unat_of_nat take_bit_nat_eq_self)
      with n assms(1) have "(of_nat n :: uint16_t) \<in> S" by simp
      with inv show "n \<in> unat ` S" by (metis imageI)
    qed
  qed
  moreover have "inj_on unat S" by (rule inj_onI) (simp add: word_unat_eq_iff)
  ultimately have "card S = card {lo..hi}" using card_image [of unat S] by simp
  then show ?thesis by simp
qed

lemma window_sizes: "card {a. isCia1Addr a} = 256" "card {a. isCia2Addr a} = 256"
  using card_word_window [of "{a. isCia1Addr a}" "0xDC00" "0xDCFF"]
    card_word_window [of "{a. isCia2Addr a}" "0xDD00" "0xDDFF"]
  by (simp_all add: addr_ranges)

text \<open>
  C6: \<open>isCiaAddr\<close> holds exactly on \<open>0xDC00..0xDDFF\<close>, \<open>isCia1Addr\<close> exactly on
  \<open>0xDC00..0xDCFF\<close> and \<open>isCia2Addr\<close> exactly on \<open>0xDD00..0xDDFF\<close>; an address is in the
  CIA range if and only if exactly one of the two chip predicates holds; the two chip
  windows are disjoint, their union is the CIA range, and each has 256 addresses.
\<close>

theorem cia_address_partition:
  "isCiaAddr a = (0xDC00 \<le> unat a \<and> unat a \<le> 0xDDFF)
   \<and> isCia1Addr a = (0xDC00 \<le> unat a \<and> unat a \<le> 0xDCFF)
   \<and> isCia2Addr a = (0xDD00 \<le> unat a \<and> unat a \<le> 0xDDFF)
   \<and> isCiaAddr a = (isCia1Addr a \<noteq> isCia2Addr a)
   \<and> {a. isCia1Addr a} \<inter> {a. isCia2Addr a} = {}
   \<and> {a. isCia1Addr a} \<union> {a. isCia2Addr a} = {a. isCiaAddr a}
   \<and> card {a. isCia1Addr a} = 256
   \<and> card {a. isCia2Addr a} = 256"
proof -
  have "isCiaAddr a = (isCia1Addr a \<noteq> isCia2Addr a)"
    by (auto simp: addr_ranges)
  moreover have "{a. isCia1Addr a} \<inter> {a. isCia2Addr a} = {}"
    by (auto simp: addr_ranges)
  moreover have "{a. isCia1Addr a} \<union> {a. isCia2Addr a} = {a. isCiaAddr a}"
    by (auto simp: addr_ranges)
  ultimately show ?thesis
    using addr_ranges [of a] window_sizes by simp
qed

theorem cia_address_partition_witness:
  "isCiaAddr 0xDD0D \<and> isCia2Addr 0xDD0D \<and> \<not> isCia1Addr 0xDD0D \<and> \<not> isCiaAddr 0xDE00"
proof -
  have "isCiaAddr 0xDD0D = (0xDC00 \<le> unat (0xDD0D :: uint16_t) \<and> unat (0xDD0D :: uint16_t) \<le> 0xDDFF)"
    and "isCia1Addr 0xDD0D = (0xDC00 \<le> unat (0xDD0D :: uint16_t) \<and> unat (0xDD0D :: uint16_t) \<le> 0xDCFF)"
    and "isCia2Addr 0xDD0D = (0xDD00 \<le> unat (0xDD0D :: uint16_t) \<and> unat (0xDD0D :: uint16_t) \<le> 0xDDFF)"
    using cia_address_partition [of "0xDD0D"] by blast+
  moreover have "isCiaAddr 0xDE00 = (0xDC00 \<le> unat (0xDE00 :: uint16_t) \<and> unat (0xDE00 :: uint16_t) \<le> 0xDDFF)"
    using cia_address_partition [of "0xDE00"] by blast
  ultimately show ?thesis by simp
qed

end
